theory Spec2Isabelle
  imports
    Main
    "HOL-Library.Sublist"
    "HOL-Library.Char_ord"
    "HOL-Library.List_Lexorder"
begin

text \<open>
  Code Refinery: the front end's language mapping, API client and refactor handler, embedded
  from the TypeScript sources, and the result selector and retry policy of the back end,
  which the sources do not contain, embedded from the specification.
\<close>

section \<open>JavaScript strings and values\<close>

text \<open>
  The front end is TypeScript. Its strings are modelled as \<^typ>\<open>string\<close>, restricted to
  the code units below 256 (ASCII and Latin-1): one \<^typ>\<open>char\<close> per UTF-16 code unit.
  The few operations of \<^verbatim>\<open>String.prototype\<close> the code uses are written out on that
  range.
\<close>

text \<open>
  The upper-case letters of the range and, at the same positions, their lower-case forms:
  A to Z, and the Latin-1 letters U+00C0 to U+00DE without the multiplication sign U+00D7.
\<close>

definition upper_case_letters :: "char list" where
  "upper_case_letters =
     ''ABCDEFGHIJKLMNOPQRSTUVWXYZ'' @
     [CHR 0xC0, CHR 0xC1, CHR 0xC2, CHR 0xC3, CHR 0xC4, CHR 0xC5, CHR 0xC6, CHR 0xC7,
      CHR 0xC8, CHR 0xC9, CHR 0xCA, CHR 0xCB, CHR 0xCC, CHR 0xCD, CHR 0xCE, CHR 0xCF,
      CHR 0xD0, CHR 0xD1, CHR 0xD2, CHR 0xD3, CHR 0xD4, CHR 0xD5, CHR 0xD6, CHR 0xD8,
      CHR 0xD9, CHR 0xDA, CHR 0xDB, CHR 0xDC, CHR 0xDD, CHR 0xDE]"

definition lower_case_letters :: "char list" where
  "lower_case_letters =
     ''abcdefghijklmnopqrstuvwxyz'' @
     [CHR 0xE0, CHR 0xE1, CHR 0xE2, CHR 0xE3, CHR 0xE4, CHR 0xE5, CHR 0xE6, CHR 0xE7,
      CHR 0xE8, CHR 0xE9, CHR 0xEA, CHR 0xEB, CHR 0xEC, CHR 0xED, CHR 0xEE, CHR 0xEF,
      CHR 0xF0, CHR 0xF1, CHR 0xF2, CHR 0xF3, CHR 0xF4, CHR 0xF5, CHR 0xF6, CHR 0xF8,
      CHR 0xF9, CHR 0xFA, CHR 0xFB, CHR 0xFC, CHR 0xFD, CHR 0xFE]"

definition toLowerCase_char :: "char \<Rightarrow> char" where
  "toLowerCase_char c =
     (case map_of (zip upper_case_letters lower_case_letters) c of
        Some l \<Rightarrow> l
      | None \<Rightarrow> c)"

definition toLowerCase :: "string \<Rightarrow> string" where
  "toLowerCase s = map toLowerCase_char s"

text \<open>
  \<^verbatim>\<open>trim()\<close> removes white space and line terminators at both ends. Below 256 these are
  tab, line feed, vertical tab, form feed, carriage return, space and the no-break space
  U+00A0.
\<close>

definition is_js_space :: "char \<Rightarrow> bool" where
  "is_js_space c =
     (c \<in> set [CHR 0x09, CHR 0x0A, CHR 0x0B, CHR 0x0C, CHR 0x0D, CHR 0x20, CHR 0xA0])"

definition trim :: "string \<Rightarrow> string" where
  "trim s = rev (dropWhile is_js_space (rev (dropWhile is_js_space s)))"

text \<open>\<^verbatim>\<open>s.includes(sub)\<close>: \<open>sub\<close> occurs in \<open>s\<close> as a contiguous substring.\<close>

fun str_includes :: "string \<Rightarrow> string \<Rightarrow> bool" where
  "str_includes [] sub = (sub = [])"
| "str_includes (c # cs) sub = (prefix sub (c # cs) \<or> str_includes cs sub)"

text \<open>
  The values a property read can produce here: a string, \<^verbatim>\<open>undefined\<close>, or an object
  that is not a string (a built-in function or prototype object, named by the property it
  was read from).
\<close>

datatype js_value = JSString string | JSUndefined | JSObject string

fun truthy :: "js_value \<Rightarrow> bool" where
  "truthy (JSString s) = (s \<noteq> [])"
| "truthy JSUndefined = False"
| "truthy (JSObject n) = True"

text \<open>\<^verbatim>\<open>a || b\<close> is \<open>a\<close> when \<open>a\<close> is truthy and \<open>b\<close> otherwise.\<close>

definition js_or :: "js_value \<Rightarrow> js_value \<Rightarrow> js_value" where
  "js_or a b = (if truthy a then a else b)"

text \<open>
  The same operator on an optional string (\<^verbatim>\<open>result.error || 'Refactoring failed'\<close>,
  \<^verbatim>\<open>data?.detail || data?.message || 'Server error'\<close>): \<^verbatim>\<open>undefined\<close> and the
  empty string are falsy.
\<close>

fun or_default :: "string option \<Rightarrow> string \<Rightarrow> string" where
  "or_default None d = d"
| "or_default (Some s) d = (if s = [] then d else s)"

text \<open>
  An object literal inherits from \<^verbatim>\<open>Object.prototype\<close>, so \<^verbatim>\<open>obj[key]\<close> finds the
  object's own property first and an inherited one otherwise. These are the properties of
  \<^verbatim>\<open>Object.prototype\<close>; each is a function, except \<^verbatim>\<open>__proto__\<close>, whose getter
  returns the prototype object itself.
\<close>

definition Object_prototype_properties :: "string list" where
  "Object_prototype_properties =
     [''constructor'', ''__defineGetter__'', ''__defineSetter__'', ''hasOwnProperty'',
      ''__lookupGetter__'', ''__lookupSetter__'', ''isPrototypeOf'', ''propertyIsEnumerable'',
      ''toString'', ''valueOf'', ''__proto__'', ''toLocaleString'']"

definition property_get :: "(string \<times> string) list \<Rightarrow> string \<Rightarrow> js_value" where
  "property_get obj key =
     (case map_of obj key of
        Some v \<Rightarrow> JSString v
      | None \<Rightarrow>
          if key \<in> set Object_prototype_properties then JSObject key else JSUndefined)"

section \<open>The code editor: \<^verbatim>\<open>getMonacoLanguage\<close>\<close>

definition languageMap :: "(string \<times> string) list" where
  "languageMap =
     [(''cpp'', ''cpp''),
      (''c'', ''c''),
      (''csharp'', ''csharp''),
      (''python'', ''python''),
      (''javascript'', ''javascript''),
      (''typescript'', ''typescript''),
      (''java'', ''java''),
      (''go'', ''go''),
      (''rust'', ''rust''),
      (''php'', ''php''),
      (''ruby'', ''ruby''),
      (''swift'', ''swift''),
      (''kotlin'', ''kotlin''),
      (''scala'', ''scala''),
      (''r'', ''r''),
      (''sql'', ''sql''),
      (''html'', ''html''),
      (''css'', ''css'')]"

text \<open>\<^verbatim>\<open>return languageMap[lang.toLowerCase()] || 'plaintext';\<close>\<close>

definition getMonacoLanguage :: "string \<Rightarrow> js_value" where
  "getMonacoLanguage lang =
     js_or (property_get languageMap (toLowerCase lang)) (JSString ''plaintext'')"

section \<open>The API types\<close>

record RefactorRequest =
  code :: string
  language :: string

record RefactorResponse =
  refactored_code :: string
  language :: string
  success :: bool
  error :: "string option"

text \<open>
  The interface is a compile-time type and nothing checks \<^verbatim>\<open>response.data\<close> against it at
  run time. A value of an interface type has the declared properties and may have others.
  The functions below therefore take a response as a record scheme: the declared fields
  together with a further part that stands for whatever else the server sent; a response is
  taken to have at least the declared properties. One such extension, a response that also
  names the provider whose output was chosen:
\<close>

record ResponseWithProvider = RefactorResponse +
  chosen_provider :: string

text \<open>
  The interface declaration of \<^verbatim>\<open>RefactorResponse\<close> itself, as data: each property with
  its declared type and whether it is marked optional (\<^verbatim>\<open>error?: string\<close>).
\<close>

datatype ts_type = TString | TBoolean

record ts_property =
  property_name :: string
  property_type :: ts_type
  optional :: bool

definition RefactorResponse_interface :: "ts_property list" where
  "RefactorResponse_interface =
     [\<lparr>property_name = ''refactored_code'', property_type = TString, optional = False\<rparr>,
      \<lparr>property_name = ''language'', property_type = TString, optional = False\<rparr>,
      \<lparr>property_name = ''success'', property_type = TBoolean, optional = False\<rparr>,
      \<lparr>property_name = ''error'', property_type = TString, optional = True\<rparr>]"

record AppState =
  inputCode :: string
  outputCode :: string
  language :: string
  focus :: string
  isLoading :: bool
  error :: "string option"

section \<open>The API client\<close>

text \<open>
  What a \<^verbatim>\<open>throw\<close> carries: an \<^verbatim>\<open>Error\<close> object with its message, or any other
  value (\<^verbatim>\<open>error instanceof Error\<close> is false for it).
\<close>

datatype thrown = Error string | NonError

text \<open>
  The outcome of one HTTP call made through axios, before the interceptors run. The
  instance sets no \<^verbatim>\<open>validateStatus\<close>, so axios resolves exactly when the status is in
  200..299 and rejects otherwise. A rejection has one of three shapes, which the response
  interceptor tells apart: \<^verbatim>\<open>error.response\<close> is set (the server answered with another
  status; the body's \<^verbatim>\<open>detail\<close> and \<^verbatim>\<open>message\<close> are read as optional strings),
  only \<^verbatim>\<open>error.request\<close> is set (no response arrived), or neither (the request could not
  be set up; \<^verbatim>\<open>error.message\<close> says why).
\<close>

record error_response =
  status :: nat
  detail :: "string option"
  message :: "string option"

datatype axios_error =
    WithResponse error_response
  | WithRequest
  | SetupFailed string

datatype 'a axios_result = Resolved 'a | Rejected axios_error

text \<open>A template literal renders a number in decimal. \<open>digit_char\<close> is only applied to
  numbers below 10.\<close>

definition digit_char :: "nat \<Rightarrow> char" where
  "digit_char d = ''0123456789'' ! d"

function string_of_nat :: "nat \<Rightarrow> string" where
  "string_of_nat n =
     (if n < 10 then [digit_char n] else string_of_nat (n div 10) @ [digit_char (n mod 10)])"
  by pat_completeness auto
termination
  by (relation "measure id") auto

declare string_of_nat.simps [simp del]

text \<open>The error handler of \<^verbatim>\<open>api.interceptors.response\<close>: every branch throws.\<close>

definition response_error_interceptor :: "axios_error \<Rightarrow> thrown" where
  "response_error_interceptor e =
     (case e of
        WithResponse r \<Rightarrow>
          if status r = 401
          then Error ''Authentication failed: Please check your API token or contact the administrator.''
          else Error (''Server Error ('' @ string_of_nat (status r) @ ''): '' @
                      or_default (detail r) (or_default (error_response.message r) ''Server error''))
      | WithRequest \<Rightarrow>
          Error ''Network error: Unable to connect to the server. Please check if the backend is running.''
      | SetupFailed m \<Rightarrow> Error (''Request error: '' @ m))"

text \<open>
  A call through the instance (\<^verbatim>\<open>api.post\<close>, \<^verbatim>\<open>api.get\<close>): a resolved response passes
  the success handler unchanged, a rejection goes through the error handler. The result is
  \<open>Inr\<close> the response data or \<open>Inl\<close> what was thrown.
\<close>

definition api_call :: "'a axios_result \<Rightarrow> thrown + 'a" where
  "api_call r =
     (case r of
        Resolved d \<Rightarrow> Inr d
      | Rejected e \<Rightarrow> Inl (response_error_interceptor e))"

text \<open>
  \<^verbatim>\<open>refactorCode\<close>: post the request, return \<^verbatim>\<open>response.data\<close>; the \<^verbatim>\<open>catch\<close> block
  logs and throws the error again. The argument \<open>server\<close> stands for the network and the
  back end: what the HTTP call for a given request settles to.
\<close>

definition refactorCode ::
  "(RefactorRequest \<Rightarrow> 'z RefactorResponse_scheme axios_result) \<Rightarrow> RefactorRequest
     \<Rightarrow> thrown + 'z RefactorResponse_scheme" where
  "refactorCode server data =
     (case api_call (server data) of
        Inr response_data \<Rightarrow> Inr response_data
      | Inl e \<Rightarrow> Inl e)"

record 'u AuthStatus =
  authenticated :: bool
  user :: "'u option"
  message :: "string option"

text \<open>
  \<^verbatim>\<open>checkAuthStatus\<close>: the \<^verbatim>\<open>catch\<close> block turns an \<^verbatim>\<open>Error\<close> whose message
  includes \<^verbatim>\<open>'Authentication failed'\<close> into a returned status and throws anything else
  again.
\<close>

definition checkAuthStatus :: "'u AuthStatus axios_result \<Rightarrow> thrown + 'u AuthStatus" where
  "checkAuthStatus r =
     (case api_call r of
        Inr response_data \<Rightarrow> Inr response_data
      | Inl e \<Rightarrow>
          (case e of
             Error m \<Rightarrow>
               if str_includes m ''Authentication failed''
               then Inr \<lparr>authenticated = False, user = None, message = Some m\<rparr>
               else Inl e
           | NonError \<Rightarrow> Inl e))"

section \<open>The page: \<^verbatim>\<open>handleRefactor\<close>\<close>


text \<open>
  The handler reads \<^verbatim>\<open>state\<close>, \<^verbatim>\<open>backendStatus\<close> and \<^verbatim>\<open>authStatus\<close> from its
  closure and changes the state only through functional updates
  (\<^verbatim>\<open>setState(prev => ...)\<close>), which React applies to the latest state. While the handler
  awaits the response other updates may be applied (the user types, picks a language); they
  are the function \<open>interleaved\<close>, so the update made after the \<^verbatim>\<open>await\<close> starts from
  \<open>interleaved\<close> of the state the handler left. The result is the final state together
  with the requests handed to \<^verbatim>\<open>refactorCode\<close>, in order.
\<close>

definition handleRefactor ::
  "(RefactorRequest \<Rightarrow> 'z RefactorResponse_scheme axios_result) \<Rightarrow> (AppState \<Rightarrow> AppState)
     \<Rightarrow> string \<Rightarrow> string \<Rightarrow> AppState \<Rightarrow> AppState \<times> RefactorRequest list" where
  "handleRefactor server interleaved backendStatus authStatus state =
     (if trim (inputCode state) = []
      then (state\<lparr>AppState.error := Some ''Please enter some code to refactor.''\<rparr>, [])
      else if backendStatus \<noteq> ''connected''
      then (state\<lparr>AppState.error :=
              Some ''Backend service is not available. Please check the connection.''\<rparr>, [])
      else if authStatus = ''failed''
      then (state\<lparr>AppState.error :=
              Some ''Authentication failed. Please check your API token configuration.''\<rparr>, [])
      else
        let request = \<lparr>code = inputCode state, RefactorRequest.language = AppState.language state\<rparr>;
            prev = interleaved (state\<lparr>isLoading := True, AppState.error := None\<rparr>);
            settled =
              (case refactorCode server request of
                 Inr result \<Rightarrow>
                   if success result
                   then prev\<lparr>outputCode := refactored_code result, isLoading := False\<rparr>
                   else prev\<lparr>AppState.error :=
                               Some (or_default (RefactorResponse.error result) ''Refactoring failed''),
                             isLoading := False\<rparr>
               | Inl e \<Rightarrow>
                   prev\<lparr>AppState.error :=
                          Some (case e of
                                  Error m \<Rightarrow> m
                                | NonError \<Rightarrow> ''An unexpected error occurred''),
                        isLoading := False\<rparr>)
        in (settled, [request]))"

section \<open>The orchestration core\<close>

text \<open>
  The back end (the orchestrator, its provider adapters and the result selector) is not
  among the source files; only its caller, the API client above, is. What follows is
  written from the specification's sections 3, 4.2, 4.3 and 7.
\<close>

text \<open>Modelled from the spec: the \<^verbatim>\<open>ErrorKind\<close> taxonomy of section 7; the back end's
  own type is missing.\<close>

datatype ErrorKind =
    Timeout | RateLimited | AuthRejected | MalformedResponse | TransportError
  | NoProvidersAvailable | InvalidRequest

text \<open>Modelled from the spec: \<^verbatim>\<open>ProviderOutcome\<close> of section 3, the back end's type
  being missing. \<open>Success refactored_code provider_id latency_ms\<close>, with the latency a
  natural number of milliseconds, and \<open>Failure provider_id kind message\<close>.\<close>

datatype ProviderOutcome =
    Success string string nat
  | Failure string ErrorKind string

text \<open>Modelled from the spec: \<^verbatim>\<open>RefactorResult\<close> of section 3, the selector's result
  type, missing from the sources.\<close>

record RefactorResult =
  refactored_code :: string
  success :: bool
  error :: "string option"
  chosen_provider :: "string option"

text \<open>Modelled from the spec: the \<^verbatim>\<open>provider_id\<close> field that both variants of an
  outcome carry (section 3); the type is missing from the sources.\<close>

fun provider_id :: "ProviderOutcome \<Rightarrow> string" where
  "provider_id (Success c p l) = p"
| "provider_id (Failure p k m) = p"

text \<open>Modelled from the spec: the successes among the outcomes given to the missing selector
  (section 4.3), each as \<open>(refactored_code, provider_id, latency_ms)\<close>.\<close>

fun successes :: "ProviderOutcome list \<Rightarrow> (string \<times> string \<times> nat) list" where
  "successes [] = []"
| "successes (Success c p l # outcomes) = (c, p, l) # successes outcomes"
| "successes (Failure p k m # outcomes) = successes outcomes"

text \<open>Modelled from the spec: the failures among the outcomes given to the missing selector
  (section 4.3), each as \<open>(provider_id, kind, message)\<close>.\<close>

fun failures :: "ProviderOutcome list \<Rightarrow> (string \<times> ErrorKind \<times> string) list" where
  "failures [] = []"
| "failures (Success c p l # outcomes) = failures outcomes"
| "failures (Failure p k m # outcomes) = (p, k, m) # failures outcomes"

text \<open>Modelled from the spec: the order of the missing selector among successes (section
  4.3): lower latency first, and at equal latency the provider id that is smaller in the
  lexicographic order of strings.\<close>

fun precedes :: "string \<times> string \<times> nat \<Rightarrow> string \<times> string \<times> nat \<Rightarrow> bool" where
  "precedes (c, p, l) (c', p', l') = (l < l' \<or> (l = l' \<and> p \<le> p'))"

text \<open>Modelled from the spec: the missing selector's scan for the success that precedes all
  others (section 4.3, second rule).\<close>

fun fastest :: "(string \<times> string \<times> nat) list \<Rightarrow> (string \<times> string \<times> nat) option" where
  "fastest [] = None"
| "fastest (x # xs) =
     (case fastest xs of
        None \<Rightarrow> Some x
      | Some y \<Rightarrow> if precedes x y then Some x else Some y)"

text \<open>Modelled from the spec: how the missing selector's diagnostic names an
  \<^verbatim>\<open>ErrorKind\<close> (section 8: the message mentions every kind present).\<close>

fun kind_name :: "ErrorKind \<Rightarrow> string" where
  "kind_name Timeout = ''Timeout''"
| "kind_name RateLimited = ''RateLimited''"
| "kind_name AuthRejected = ''AuthRejected''"
| "kind_name MalformedResponse = ''MalformedResponse''"
| "kind_name TransportError = ''TransportError''"
| "kind_name NoProvidersAvailable = ''NoProvidersAvailable''"
| "kind_name InvalidRequest = ''InvalidRequest''"

text \<open>Modelled from the spec: one provider's part of the missing selector's diagnostic: who
  failed, the kind and the failure message (section 4.3, third rule).\<close>

fun failure_text :: "string \<times> ErrorKind \<times> string \<Rightarrow> string" where
  "failure_text (p, k, m) = p @ '': '' @ kind_name k @ '': '' @ m"

text \<open>Modelled from the spec: joining the parts of the missing selector's diagnostic into
  one string (section 4.3, third rule).\<close>

fun join :: "string \<Rightarrow> string list \<Rightarrow> string" where
  "join sep [] = []"
| "join sep [s] = s"
| "join sep (s # t # ts) = s @ sep @ join sep (t # ts)"

text \<open>Modelled from the spec: the diagnostic of the missing selector, the failure messages
  of all providers aggregated into one string (section 4.3, third rule). The input is a
  set, given here as a list in some order; the failures are taken in the order of their
  provider ids.\<close>

definition diagnostic :: "ProviderOutcome list \<Rightarrow> string" where
  "diagnostic outcomes = join ''; '' (map failure_text (sort_key fst (failures outcomes)))"

text \<open>Modelled from the spec: the result the missing selector returns for the success it
  chose (sections 3 and 8: the code, \<^verbatim>\<open>success:true\<close>, the chosen provider).\<close>

fun chosen :: "string \<times> string \<times> nat \<Rightarrow> RefactorResult" where
  "chosen (c, p, l) =
     \<lparr>refactored_code = c, success = True, error = None, chosen_provider = Some p\<rparr>"

text \<open>Modelled from the spec: \<^verbatim>\<open>select\<close>, the result selector of section 4.3, missing
  from the sources. Its three rules in order: the configured preferred provider if it
  succeeded; else the success that precedes all others; else \<^verbatim>\<open>success:false\<close> with the
  diagnostic. The set of outcomes is a list in some order.\<close>

definition select :: "string option \<Rightarrow> ProviderOutcome list \<Rightarrow> RefactorResult" where
  "select preferred outcomes =
     (case find (\<lambda>(c, p, l). Some p = preferred) (successes outcomes) of
        Some s \<Rightarrow> chosen s
      | None \<Rightarrow>
          (case fastest (successes outcomes) of
             Some s \<Rightarrow> chosen s
           | None \<Rightarrow>
               \<lparr>refactored_code = [], success = False, error = Some (diagnostic outcomes),
                chosen_provider = None\<rparr>))"

text \<open>Modelled from the spec: which kinds the missing orchestrator's retry policy treats as
  transient (section 4.2: timeout and rate limit).\<close>

definition transient :: "ErrorKind \<Rightarrow> bool" where
  "transient k = (k = Timeout \<or> k = RateLimited)"

text \<open>Modelled from the spec: the number of retries of the missing orchestrator's retry
  policy (section 4.2: retried once).\<close>

definition max_retries :: nat where
  "max_retries = 1"

text \<open>Modelled from the spec: the retry loop of the missing orchestrator (section 4.2).
  \<open>adapter i\<close> is what attempt number \<open>i\<close> of the provider call settles to; the result
  lists the outcomes of the attempts made, in order. An attempt that fails with a transient
  kind is followed by another while retries are left.\<close>

fun attempts :: "(nat \<Rightarrow> ProviderOutcome) \<Rightarrow> nat \<Rightarrow> nat \<Rightarrow> ProviderOutcome list" where
  "attempts adapter i 0 = [adapter i]"
| "attempts adapter i (Suc retries_left) =
     (case adapter i of
        Success c p l \<Rightarrow> [adapter i]
      | Failure p k m \<Rightarrow>
          if transient k then adapter i # attempts adapter (Suc i) retries_left
          else [adapter i])"

text \<open>Modelled from the spec: one provider call under the missing orchestrator's retry
  policy (section 4.2): the attempts made for it.\<close>

definition call_with_retry :: "(nat \<Rightarrow> ProviderOutcome) \<Rightarrow> ProviderOutcome list" where
  "call_with_retry adapter = attempts adapter 0 max_retries"

text \<open>Modelled from the spec: the outcome the missing orchestrator records as final for a
  provider (section 4.2): that of the last attempt.\<close>

definition recorded :: "(nat \<Rightarrow> ProviderOutcome) \<Rightarrow> ProviderOutcome" where
  "recorded adapter = last (call_with_retry adapter)"

section \<open>Example inputs\<close>

text \<open>Concrete requests, states and server behaviours at which the theorems below are run.\<close>

definition example_request :: RefactorRequest where
  "example_request = \<lparr>code = ''print(1)'', RefactorRequest.language = ''python''\<rparr>"

definition example_state :: AppState where
  "example_state =
     \<lparr>inputCode = ''print(1)'', outputCode = [], AppState.language = ''python'',
      focus = ''readability'', isLoading = False, AppState.error = None\<rparr>"




definition server_refactored :: "RefactorRequest \<Rightarrow> RefactorResponse axios_result" where
  "server_refactored request =
     Resolved \<lparr>RefactorResponse.refactored_code = code request @ ''  # refactored'',
               RefactorResponse.language = RefactorRequest.language request,
               RefactorResponse.success = True, RefactorResponse.error = None\<rparr>"

text \<open>The same answer with a further property \<^verbatim>\<open>chosen_provider\<close>.\<close>

definition server_naming_provider ::
  "RefactorRequest \<Rightarrow> ResponseWithProvider axios_result" where
  "server_naming_provider request =
     Resolved \<lparr>RefactorResponse.refactored_code = code request @ ''  # refactored'',
               RefactorResponse.language = RefactorRequest.language request,
               RefactorResponse.success = True, RefactorResponse.error = None,
               ResponseWithProvider.chosen_provider = ''anthropic''\<rparr>"

definition server_unsuccessful :: "RefactorRequest \<Rightarrow> RefactorResponse axios_result" where
  "server_unsuccessful request =
     Resolved \<lparr>RefactorResponse.refactored_code = [],
               RefactorResponse.language = RefactorRequest.language request,
               RefactorResponse.success = False,
               RefactorResponse.error = Some ''All providers failed''\<rparr>"

definition server_error_500 :: "RefactorRequest \<Rightarrow> RefactorResponse axios_result" where
  "server_error_500 request =
     Rejected (WithResponse
       \<lparr>status = 500, detail = Some ''All providers failed'', message = None\<rparr>)"

text \<open>A provider that times out once and then succeeds, and one that rejects the
  credentials.\<close>

definition flaky :: "nat \<Rightarrow> ProviderOutcome" where
  "flaky i = (if i = 0 then Failure ''A'' Timeout ''timed out''
              else Success ''print(1)  # refactored'' ''A'' 200)"

definition rejecting :: "nat \<Rightarrow> ProviderOutcome" where
  "rejecting i = Failure ''B'' AuthRejected ''invalid API key''"

text \<open>Outcome sets: the scenario of the specification's section 8 in both orders, and one
  with two successes at the same latency.\<close>

definition outcomes_A_then_B :: "ProviderOutcome list" where
  "outcomes_A_then_B =
     [Success ''print(1)  # refactored'' ''A'' 200, Failure ''B'' Timeout ''timed out'']"

definition outcomes_B_then_A :: "ProviderOutcome list" where
  "outcomes_B_then_A =
     [Failure ''B'' Timeout ''timed out'', Success ''print(1)  # refactored'' ''A'' 200]"

definition outcomes_tied :: "ProviderOutcome list" where
  "outcomes_tied =
     [Success ''slow'' ''C'' 900, Success ''from B'' ''B'' 200, Success ''from A'' ''A'' 200,
      Failure ''D'' RateLimited ''quota exceeded'']"

section \<open>Properties of \<^verbatim>\<open>getMonacoLanguage\<close>\<close>

lemma languageMap_length: "length languageMap = 18"
  by (simp add: languageMap_def)

lemma languageMap_distinct: "distinct (map fst languageMap)"
  by (simp add: languageMap_def)

lemma languageMap_values_nonempty: "map_of languageMap k = Some v \<Longrightarrow> v \<noteq> []"
  by (auto simp: languageMap_def split: if_splits)

lemma getMonacoLanguage_mapped:
  "map_of languageMap (toLowerCase lang) = Some v \<Longrightarrow> getMonacoLanguage lang = JSString v"
  by (simp add: getMonacoLanguage_def property_get_def js_or_def languageMap_values_nonempty)

lemma getMonacoLanguage_plaintext:
  assumes "toLowerCase lang \<notin> fst ` set languageMap"
    and "toLowerCase lang \<notin> set Object_prototype_properties"
  shows "getMonacoLanguage lang = JSString ''plaintext''"
proof -
  from assms(1) have "map_of languageMap (toLowerCase lang) = None"
    by (simp add: map_of_eq_None_iff)
  with assms(2) show ?thesis
    by (simp add: getMonacoLanguage_def property_get_def js_or_def)
qed

lemma getMonacoLanguage_defined: "getMonacoLanguage lang \<noteq> JSUndefined"
  by (auto simp: getMonacoLanguage_def property_get_def js_or_def split: option.splits)

lemma getMonacoLanguage_case_insensitive:
  "toLowerCase a = toLowerCase b \<Longrightarrow> getMonacoLanguage a = getMonacoLanguage b"
  by (simp add: getMonacoLanguage_def)

text \<open>
  Claim C8. \<^verbatim>\<open>getMonacoLanguage\<close> is said to return \<^verbatim>\<open>'plaintext'\<close> for every input
  whose lower-case form is not one of the 18 keys. The string \<^verbatim>\<open>Constructor\<close> is such an
  input: its lower-case form \<^verbatim>\<open>constructor\<close> is no key of the map, yet the lookup finds
  the property inherited from \<^verbatim>\<open>Object.prototype\<close>, which is truthy, so the function
  returns that object and not the string \<^verbatim>\<open>'plaintext'\<close>.
\<close>

theorem getMonacoLanguage_inherited_property:
  "toLowerCase ''Constructor'' = ''constructor''
   \<and> ''constructor'' \<notin> fst ` set languageMap
   \<and> getMonacoLanguage ''Constructor'' = JSObject ''constructor''
   \<and> getMonacoLanguage ''Constructor'' \<noteq> JSString ''plaintext''"
  by (simp add: getMonacoLanguage_def property_get_def js_or_def languageMap_def
      Object_prototype_properties_def toLowerCase_def toLowerCase_char_def
      upper_case_letters_def lower_case_letters_def)

section \<open>Properties of the API client\<close>

lemma string_of_nat_nonempty: "string_of_nat n \<noteq> []"
  by (subst string_of_nat.simps) simp

lemma response_error_interceptor_Error:
  "\<exists>m. m \<noteq> [] \<and> response_error_interceptor e = Error m"
  by (cases e) (simp_all add: response_error_interceptor_def)

lemma refactorCode_Resolved: "server data = Resolved r \<Longrightarrow> refactorCode server data = Inr r"
  by (simp add: refactorCode_def api_call_def)

lemma refactorCode_Rejected:
  "server data = Rejected e \<Longrightarrow> refactorCode server data = Inl (response_error_interceptor e)"
  by (simp add: refactorCode_def api_call_def)

lemma api_call_401:
  "status r = 401 \<Longrightarrow>
   api_call (Rejected (WithResponse r))
     = Inl (Error ''Authentication failed: Please check your API token or contact the administrator.'')"
  by (simp add: api_call_def response_error_interceptor_def)

text \<open>\<^const>\<open>str_includes\<close> is the contiguous-sublist relation of the library.\<close>

lemma str_includes_iff_sublist: "str_includes s sub \<longleftrightarrow> sublist sub s"
  by (induction s) (auto simp: sublist_Cons_right)

section \<open>Properties of \<^verbatim>\<open>handleRefactor\<close>\<close>

lemma dropWhile_all_iff: "(\<forall>x \<in> set (dropWhile P s). P x) \<longleftrightarrow> (\<forall>x \<in> set s. P x)"
proof
  assume a: "\<forall>x \<in> set (dropWhile P s). P x"
  have "dropWhile P s = []"
  proof (rule ccontr)
    assume n: "dropWhile P s \<noteq> []"
    then have "\<not> P (hd (dropWhile P s))" by (rule hd_dropWhile)
    moreover from n have "hd (dropWhile P s) \<in> set (dropWhile P s)" by simp
    ultimately show False using a by blast
  qed
  then show "\<forall>x \<in> set s. P x" by simp
next
  assume "\<forall>x \<in> set s. P x"
  then show "\<forall>x \<in> set (dropWhile P s). P x" by (auto dest: set_dropWhileD)
qed

text \<open>The input is blank for the handler exactly when it consists of white space only.\<close>

lemma trim_eq_Nil_iff: "trim s = [] \<longleftrightarrow> (\<forall>c \<in> set s. is_js_space c)"
  by (simp add: trim_def dropWhile_all_iff)

lemma trim_empty: "trim [] = []"
  by (simp add: trim_def)

text \<open>Past the three guards the handler is the request, the update to loading and the
  update made from the settled call.\<close>

lemma handleRefactor_guards_pass:
  assumes "trim (inputCode state) \<noteq> []" and "backendStatus = ''connected''"
    and "authStatus \<noteq> ''failed''"
  shows "handleRefactor server interleaved backendStatus authStatus state =
    (let request = \<lparr>code = inputCode state, RefactorRequest.language = AppState.language state\<rparr>;
         prev = interleaved (state\<lparr>isLoading := True, AppState.error := None\<rparr>)
     in ((case refactorCode server request of
            Inr result \<Rightarrow>
              if RefactorResponse.success result
              then prev\<lparr>outputCode := RefactorResponse.refactored_code result, isLoading := False\<rparr>
              else prev\<lparr>AppState.error :=
                          Some (or_default (RefactorResponse.error result) ''Refactoring failed''),
                        isLoading := False\<rparr>
          | Inl e \<Rightarrow>
              prev\<lparr>AppState.error :=
                     Some (case e of
                             Error m \<Rightarrow> m
                           | NonError \<Rightarrow> ''An unexpected error occurred''),
                   isLoading := False\<rparr>),
         [request]))"
  using assms by (simp add: handleRefactor_def Let_def)

lemma handleRefactor_unavailable_no_request:
  assumes "backendStatus \<noteq> ''connected'' \<or> authStatus = ''failed''"
  shows "snd (handleRefactor server interleaved backendStatus authStatus state) = []
    \<and> AppState.error (fst (handleRefactor server interleaved backendStatus authStatus state))
        \<noteq> None
    \<and> isLoading (fst (handleRefactor server interleaved backendStatus authStatus state))
        = isLoading state"
  using assms by (auto simp: handleRefactor_def)


lemma handleRefactor_isLoading:
  "isLoading (fst (handleRefactor server interleaved backendStatus authStatus state)) =
     (if trim (inputCode state) = [] \<or> backendStatus \<noteq> ''connected'' \<or> authStatus = ''failed''
      then isLoading state else False)"
  by (simp add: handleRefactor_def Let_def split: sum.splits)

section \<open>Claims about the front end\<close>

text \<open>
  Claim C1 says that the caller of a refactor request always receives a result value and
  never an exception. \<^verbatim>\<open>refactorCode\<close> does throw: when the server answers with status
  500 the interceptor throws an \<^verbatim>\<open>Error\<close> and the \<^verbatim>\<open>catch\<close> block of
  \<^verbatim>\<open>refactorCode\<close> throws it again.
\<close>

theorem refactorCode_throws_on_server_error:
  "refactorCode server_error_500 example_request
     = Inl (Error ''Server Error (500): All providers failed'')"
  by (simp add: refactorCode_def api_call_def response_error_interceptor_def
      server_error_500_def string_of_nat.simps digit_char_def)

text \<open>
  Claim C1, amended. The caller of \<^verbatim>\<open>refactorCode\<close> receives the server's
  \<^verbatim>\<open>RefactorResponse\<close> when the HTTP call is resolved. When it is rejected, in any of
  its three shapes, the interceptor turns the rejection into an \<^verbatim>\<open>Error\<close> with a
  non-empty message and \<^verbatim>\<open>refactorCode\<close> throws it to its caller. The caller
  \<^verbatim>\<open>handleRefactor\<close> catches it: once past its guards it ends in a state whose
  \<^verbatim>\<open>error\<close> is that message and whose \<^verbatim>\<open>isLoading\<close> is false.
\<close>

theorem refactorCode_returns_or_throws:
  "(\<forall>r. server data = Resolved r \<longrightarrow> refactorCode server data = Inr r)
   \<and> (\<forall>e. server data = Rejected e \<longrightarrow>
          (\<exists>m. m \<noteq> [] \<and> refactorCode server data = Inl (Error m)))
   \<and> (\<forall>m. trim (inputCode state) \<noteq> [] \<and> backendStatus = ''connected''
          \<and> authStatus \<noteq> ''failed''
          \<and> refactorCode server
               \<lparr>code = inputCode state, RefactorRequest.language = AppState.language state\<rparr>
              = Inl (Error m) \<longrightarrow>
          fst (handleRefactor server interleaved backendStatus authStatus state)
            = (interleaved (state\<lparr>isLoading := True, AppState.error := None\<rparr>))
                \<lparr>AppState.error := Some m, isLoading := False\<rparr>)"
proof (intro conjI allI impI)
  fix r assume "server data = Resolved r"
  then show "refactorCode server data = Inr r" by (rule refactorCode_Resolved)
next
  fix e assume "server data = Rejected e"
  then have "refactorCode server data = Inl (response_error_interceptor e)"
    by (rule refactorCode_Rejected)
  with response_error_interceptor_Error [of e]
  show "\<exists>m. m \<noteq> [] \<and> refactorCode server data = Inl (Error m)" by auto
next
  fix m
  assume "trim (inputCode state) \<noteq> [] \<and> backendStatus = ''connected''
          \<and> authStatus \<noteq> ''failed''
          \<and> refactorCode server
               \<lparr>code = inputCode state, RefactorRequest.language = AppState.language state\<rparr>
              = Inl (Error m)"
  then show "fst (handleRefactor server interleaved backendStatus authStatus state)
            = (interleaved (state\<lparr>isLoading := True, AppState.error := None\<rparr>))
                \<lparr>AppState.error := Some m, isLoading := False\<rparr>"
    by (simp add: handleRefactor_guards_pass Let_def)
qed

theorem refactorCode_returns_or_throws_witness:
  "refactorCode server_refactored example_request
     = Inr \<lparr>RefactorResponse.refactored_code = ''print(1)  # refactored'', RefactorResponse.language = ''python'',
            RefactorResponse.success = True, RefactorResponse.error = None\<rparr>
   \<and> (\<exists>m. m \<noteq> [] \<and> refactorCode server_error_500 example_request = Inl (Error m))
   \<and> fst (handleRefactor server_error_500 id ''connected'' ''authenticated'' example_state)
       = example_state\<lparr>AppState.error := Some ''Server Error (500): All providers failed''\<rparr>"
proof -
  have ok: "server_refactored example_request
      = Resolved \<lparr>RefactorResponse.refactored_code = ''print(1)  # refactored'', RefactorResponse.language = ''python'',
            RefactorResponse.success = True, RefactorResponse.error = None\<rparr>"
    by (simp add: server_refactored_def example_request_def)
  have ko: "server_error_500 example_request
      = Rejected (WithResponse
          \<lparr>status = 500, detail = Some ''All providers failed'', message = None\<rparr>)"
    by (simp add: server_error_500_def)
  have g: "trim (inputCode example_state) \<noteq> []"
    by (simp add: example_state_def trim_def is_js_space_def)
  have t: "refactorCode server_error_500
             \<lparr>code = inputCode example_state,
              RefactorRequest.language = AppState.language example_state\<rparr>
            = Inl (Error ''Server Error (500): All providers failed'')"
    by (simp add: refactorCode_def api_call_def response_error_interceptor_def
        server_error_500_def string_of_nat.simps digit_char_def)
  note A = refactorCode_returns_or_throws
    [of server_refactored example_request example_state "''connected''" "''authenticated''" id]
  note B = refactorCode_returns_or_throws
    [of server_error_500 example_request example_state "''connected''" "''authenticated''" id]
  from A ok have 1: "refactorCode server_refactored example_request
     = Inr \<lparr>RefactorResponse.refactored_code = ''print(1)  # refactored'', RefactorResponse.language = ''python'',
            RefactorResponse.success = True, RefactorResponse.error = None\<rparr>"
    by blast
  from B ko have 2:
    "\<exists>m. m \<noteq> [] \<and> refactorCode server_error_500 example_request = Inl (Error m)"
    by blast
  from B g t have 3:
    "fst (handleRefactor server_error_500 id ''connected'' ''authenticated'' example_state)
       = (id (example_state\<lparr>isLoading := True, AppState.error := None\<rparr>))
           \<lparr>AppState.error := Some ''Server Error (500): All providers failed'',
            isLoading := False\<rparr>"
    by simp
  have 4: "(id (example_state\<lparr>isLoading := True, AppState.error := None\<rparr>))
           \<lparr>AppState.error := Some ''Server Error (500): All providers failed'',
            isLoading := False\<rparr>
     = example_state\<lparr>AppState.error := Some ''Server Error (500): All providers failed''\<rparr>"
    by (simp add: example_state_def)
  from 1 2 3 4 show ?thesis by simp
qed




text \<open>
  Claim C10. Once \<^verbatim>\<open>handleRefactor\<close> is past its guards and calls \<^verbatim>\<open>refactorCode\<close>,
  the state it ends in has \<^verbatim>\<open>isLoading\<close> false on each of the three paths, whatever
  updates were interleaved while it waited: a successful result sets \<^verbatim>\<open>outputCode\<close>, an
  unsuccessful result sets \<^verbatim>\<open>error\<close> from the result, a thrown value sets \<^verbatim>\<open>error\<close>
  from the exception.
\<close>

theorem handleRefactor_restores_isLoading:
  assumes "trim (inputCode state) \<noteq> []" and "backendStatus = ''connected''"
    and "authStatus \<noteq> ''failed''"
  shows "isLoading (fst (handleRefactor server interleaved backendStatus authStatus state)) = False
    \<and> (\<forall>result.
          refactorCode server
            \<lparr>code = inputCode state, RefactorRequest.language = AppState.language state\<rparr>
            = Inr result \<and> RefactorResponse.success result \<longrightarrow>
          outputCode (fst (handleRefactor server interleaved backendStatus authStatus state))
            = RefactorResponse.refactored_code result)
    \<and> (\<forall>result.
          refactorCode server
            \<lparr>code = inputCode state, RefactorRequest.language = AppState.language state\<rparr>
            = Inr result \<and> \<not> RefactorResponse.success result \<longrightarrow>
          AppState.error (fst (handleRefactor server interleaved backendStatus authStatus state))
            = Some (or_default (RefactorResponse.error result) ''Refactoring failed''))
    \<and> (\<forall>e.
          refactorCode server
            \<lparr>code = inputCode state, RefactorRequest.language = AppState.language state\<rparr>
            = Inl e \<longrightarrow>
          AppState.error (fst (handleRefactor server interleaved backendStatus authStatus state))
            = Some (case e of Error m \<Rightarrow> m | NonError \<Rightarrow> ''An unexpected error occurred''))"
  using assms by (simp add: handleRefactor_guards_pass Let_def split: sum.splits)

theorem handleRefactor_restores_isLoading_witness:
  "trim (inputCode example_state) \<noteq> []
   \<and> isLoading (fst (handleRefactor server_refactored id ''connected'' ''authenticated''
        example_state)) = False
   \<and> outputCode (fst (handleRefactor server_refactored id ''connected'' ''authenticated''
        example_state)) = ''print(1)  # refactored''
   \<and> isLoading (fst (handleRefactor server_unsuccessful id ''connected'' ''authenticated''
        example_state)) = False
   \<and> AppState.error (fst (handleRefactor server_unsuccessful id ''connected'' ''authenticated''
        example_state)) = Some ''All providers failed''
   \<and> isLoading (fst (handleRefactor server_error_500 id ''connected'' ''authenticated''
        example_state)) = False
   \<and> AppState.error (fst (handleRefactor server_error_500 id ''connected'' ''authenticated''
        example_state)) = Some ''Server Error (500): All providers failed''"
proof -
  have g: "trim (inputCode example_state) \<noteq> []"
    by (simp add: example_state_def trim_def is_js_space_def)
  have c: "''connected'' = ''connected''" and a: "''authenticated'' \<noteq> ''failed''"
    by simp_all
  have r1: "refactorCode server_refactored
              \<lparr>code = inputCode example_state,
               RefactorRequest.language = AppState.language example_state\<rparr>
            = Inr \<lparr>RefactorResponse.refactored_code = ''print(1)  # refactored'', RefactorResponse.language = ''python'',
                   RefactorResponse.success = True, RefactorResponse.error = None\<rparr>"
    by (simp add: refactorCode_def api_call_def server_refactored_def example_state_def)
  have r2: "refactorCode server_unsuccessful
              \<lparr>code = inputCode example_state,
               RefactorRequest.language = AppState.language example_state\<rparr>
            = Inr \<lparr>RefactorResponse.refactored_code = [], RefactorResponse.language = ''python'',
                   RefactorResponse.success = False,
                   RefactorResponse.error = Some ''All providers failed''\<rparr>"
    by (simp add: refactorCode_def api_call_def server_unsuccessful_def example_state_def)
  have r3: "refactorCode server_error_500
              \<lparr>code = inputCode example_state,
               RefactorRequest.language = AppState.language example_state\<rparr>
            = Inl (Error ''Server Error (500): All providers failed'')"
    by (simp add: refactorCode_def api_call_def response_error_interceptor_def
        server_error_500_def string_of_nat.simps digit_char_def)
  from handleRefactor_restores_isLoading [OF g c a, of server_refactored id] r1
  have 1: "isLoading (fst (handleRefactor server_refactored id ''connected'' ''authenticated''
        example_state)) = False
     \<and> outputCode (fst (handleRefactor server_refactored id ''connected'' ''authenticated''
        example_state)) = ''print(1)  # refactored''"
    by simp
  from handleRefactor_restores_isLoading [OF g c a, of server_unsuccessful id] r2
  have 2: "isLoading (fst (handleRefactor server_unsuccessful id ''connected'' ''authenticated''
        example_state)) = False
     \<and> AppState.error (fst (handleRefactor server_unsuccessful id ''connected''
        ''authenticated'' example_state)) = Some ''All providers failed''"
    by simp
  from handleRefactor_restores_isLoading [OF g c a, of server_error_500 id] r3
  have 3: "isLoading (fst (handleRefactor server_error_500 id ''connected'' ''authenticated''
        example_state)) = False
     \<and> AppState.error (fst (handleRefactor server_error_500 id ''connected''
        ''authenticated'' example_state)) = Some ''Server Error (500): All providers failed''"
    by simp
  from g 1 2 3 show ?thesis by simp
qed

text \<open>
  Claim C9 says that \<^verbatim>\<open>checkAuthStatus\<close> catches exactly the errors made from a 401 and
  throws every other error again. The test in its \<^verbatim>\<open>catch\<close> block is
  \<^verbatim>\<open>error.message.includes('Authentication failed')\<close>, a substring test. A response
  with status 403 whose \<^verbatim>\<open>detail\<close> is \<^verbatim>\<open>Authentication failed\<close> gives an error whose
  message does not begin with \<^verbatim>\<open>Authentication failed:\<close>, and that error is not thrown
  again: it is returned as \<^verbatim>\<open>{ authenticated: false, message }\<close>.
\<close>

theorem checkAuthStatus_catches_non_401:
  "status \<lparr>status = 403, detail = Some ''Authentication failed'', message = None\<rparr> \<noteq> 401
   \<and> (api_call (Rejected (WithResponse
          \<lparr>status = 403, detail = Some ''Authentication failed'', message = None\<rparr>))
        :: thrown + unit AuthStatus)
       = Inl (Error ''Server Error (403): Authentication failed'')
   \<and> \<not> prefix ''Authentication failed:'' ''Server Error (403): Authentication failed''
   \<and> (checkAuthStatus (Rejected (WithResponse
          \<lparr>status = 403, detail = Some ''Authentication failed'', message = None\<rparr>))
        :: thrown + unit AuthStatus)
       = Inr \<lparr>authenticated = False, user = None,
              message = Some ''Server Error (403): Authentication failed''\<rparr>"
  by (simp add: checkAuthStatus_def api_call_def response_error_interceptor_def
      string_of_nat.simps digit_char_def)

text \<open>
  Claim C9, amended. A response with status 401 always becomes a thrown \<^verbatim>\<open>Error\<close> whose
  message begins with \<^verbatim>\<open>Authentication failed:\<close>, and \<^verbatim>\<open>checkAuthStatus\<close> returns
  \<^verbatim>\<open>{ authenticated: false, message }\<close> for it. More generally \<^verbatim>\<open>checkAuthStatus\<close>
  returns that value for every thrown \<^verbatim>\<open>Error\<close> whose message contains
  \<^verbatim>\<open>Authentication failed\<close> anywhere, and throws again every error whose message does not
  contain it; a call with no response is one of the latter. A resolved call returns the
  response data.
\<close>

theorem checkAuthStatus_catches_by_substring:
  "(status r = 401 \<longrightarrow>
      (\<exists>m. api_call (Rejected (WithResponse r)) = (Inl (Error m) :: thrown + 'u AuthStatus)
         \<and> prefix ''Authentication failed:'' m
         \<and> checkAuthStatus (Rejected (WithResponse r))
             = (Inr \<lparr>authenticated = False, user = None, message = Some m\<rparr>
                  :: thrown + 'u AuthStatus)))
   \<and> (\<forall>m. api_call (Rejected e) = (Inl (Error m) :: thrown + 'u AuthStatus) \<longrightarrow>
          checkAuthStatus (Rejected e)
            = (if str_includes m ''Authentication failed''
               then Inr \<lparr>authenticated = False, user = None, message = Some m\<rparr>
               else (Inl (Error m) :: thrown + 'u AuthStatus)))
   \<and> checkAuthStatus (Rejected WithRequest)
       = (Inl (Error ''Network error: Unable to connect to the server. Please check if the backend is running.'')
            :: thrown + 'u AuthStatus)
   \<and> checkAuthStatus (Resolved d) = (Inr d :: thrown + 'u AuthStatus)"
proof (intro conjI impI allI)
  assume "status r = 401"
  then show "\<exists>m. api_call (Rejected (WithResponse r)) = (Inl (Error m) :: thrown + 'u AuthStatus)
         \<and> prefix ''Authentication failed:'' m
         \<and> checkAuthStatus (Rejected (WithResponse r))
             = (Inr \<lparr>authenticated = False, user = None, message = Some m\<rparr>
                  :: thrown + 'u AuthStatus)"
    by (simp add: checkAuthStatus_def api_call_401)
next
  fix m
  assume "api_call (Rejected e) = (Inl (Error m) :: thrown + 'u AuthStatus)"
  then show "checkAuthStatus (Rejected e)
            = (if str_includes m ''Authentication failed''
               then Inr \<lparr>authenticated = False, user = None, message = Some m\<rparr>
               else (Inl (Error m) :: thrown + 'u AuthStatus))"
    by (simp add: checkAuthStatus_def)
next
  show "checkAuthStatus (Rejected WithRequest)
       = (Inl (Error ''Network error: Unable to connect to the server. Please check if the backend is running.'')
            :: thrown + 'u AuthStatus)"
    by (simp add: checkAuthStatus_def api_call_def response_error_interceptor_def)
next
  show "checkAuthStatus (Resolved d) = (Inr d :: thrown + 'u AuthStatus)"
    by (simp add: checkAuthStatus_def api_call_def)
qed

theorem checkAuthStatus_catches_by_substring_witness:
  "status \<lparr>status = 401, detail = Some ''Invalid token'', message = None\<rparr> = 401
   \<and> (\<exists>m. prefix ''Authentication failed:'' m
         \<and> checkAuthStatus (Rejected (WithResponse
              \<lparr>status = 401, detail = Some ''Invalid token'', message = None\<rparr>))
             = (Inr \<lparr>authenticated = False, user = None, message = Some m\<rparr>
                  :: thrown + unit AuthStatus))
   \<and> (checkAuthStatus (Rejected (SetupFailed ''Invalid URL'')) :: thrown + unit AuthStatus)
       = Inl (Error ''Request error: Invalid URL'')"
proof -
  let ?r = "\<lparr>status = 401, detail = Some ''Invalid token'', message = None\<rparr>"
  let ?e = "SetupFailed ''Invalid URL''"
  have h: "status ?r = 401" by simp
  have t: "(api_call (Rejected ?e) :: thrown + unit AuthStatus)
      = Inl (Error ''Request error: Invalid URL'')"
    by (simp add: api_call_def response_error_interceptor_def)
  have n: "\<not> str_includes ''Request error: Invalid URL'' ''Authentication failed''"
    by simp
  note T = checkAuthStatus_catches_by_substring [where r = ?r and e = ?e and 'u = unit]
  from T have "status ?r = 401 \<longrightarrow>
      (\<exists>m. api_call (Rejected (WithResponse ?r)) = (Inl (Error m) :: thrown + unit AuthStatus)
         \<and> prefix ''Authentication failed:'' m
         \<and> checkAuthStatus (Rejected (WithResponse ?r))
             = (Inr \<lparr>authenticated = False, user = None, message = Some m\<rparr>
                  :: thrown + unit AuthStatus))"
    by (rule conjunct1)
  with h obtain m where m: "prefix ''Authentication failed:'' m"
    "checkAuthStatus (Rejected (WithResponse ?r))
       = (Inr \<lparr>authenticated = False, user = None, message = Some m\<rparr>
            :: thrown + unit AuthStatus)"
    by auto
  from T have "\<forall>m. api_call (Rejected ?e) = (Inl (Error m) :: thrown + unit AuthStatus) \<longrightarrow>
          checkAuthStatus (Rejected ?e)
            = (if str_includes m ''Authentication failed''
               then Inr \<lparr>authenticated = False, user = None, message = Some m\<rparr>
               else (Inl (Error m) :: thrown + unit AuthStatus))"
    by (rule conjunct1 [OF conjunct2])
  then have "api_call (Rejected ?e)
        = (Inl (Error ''Request error: Invalid URL'') :: thrown + unit AuthStatus) \<longrightarrow>
      checkAuthStatus (Rejected ?e)
            = (if str_includes ''Request error: Invalid URL'' ''Authentication failed''
               then Inr \<lparr>authenticated = False, user = None,
                          message = Some ''Request error: Invalid URL''\<rparr>
               else (Inl (Error ''Request error: Invalid URL'') :: thrown + unit AuthStatus))"
    by (rule spec)
  from this t have "checkAuthStatus (Rejected ?e)
            = (if str_includes ''Request error: Invalid URL'' ''Authentication failed''
               then Inr \<lparr>authenticated = False, user = None,
                          message = Some ''Request error: Invalid URL''\<rparr>
               else (Inl (Error ''Request error: Invalid URL'') :: thrown + unit AuthStatus))"
    by (rule mp)
  with n have 2:
    "(checkAuthStatus (Rejected ?e) :: thrown + unit AuthStatus)
       = Inl (Error ''Request error: Invalid URL'')"
    by (simp only: if_False)
  from m have 1: "\<exists>m. prefix ''Authentication failed:'' m
         \<and> checkAuthStatus (Rejected (WithResponse ?r))
             = (Inr \<lparr>authenticated = False, user = None, message = Some m\<rparr>
                  :: thrown + unit AuthStatus)"
    by (intro exI conjI)
  from h 1 2 show ?thesis by (intro conjI)
qed

text \<open>
  Claim C6 lists the fields of the result as \<^verbatim>\<open>refactored_code\<close>, \<^verbatim>\<open>success\<close>,
  \<^verbatim>\<open>error\<close> and \<^verbatim>\<open>chosen_provider\<close>. The interface \<^verbatim>\<open>RefactorResponse\<close> declares
  another set: it has \<^verbatim>\<open>language\<close> and it has no \<^verbatim>\<open>chosen_provider\<close>. A response that
  follows the interface reaches the caller of \<^verbatim>\<open>refactorCode\<close> with its \<^verbatim>\<open>language\<close>.
\<close>

theorem RefactorResponse_interface_lacks_chosen_provider:
  "set (map property_name RefactorResponse_interface)
     \<noteq> {''refactored_code'', ''success'', ''error'', ''chosen_provider''}
   \<and> ''chosen_provider'' \<notin> set (map property_name RefactorResponse_interface)
   \<and> ''language'' \<in> set (map property_name RefactorResponse_interface)
   \<and> refactorCode server_refactored example_request
       = Inr \<lparr>RefactorResponse.refactored_code = ''print(1)  # refactored'',
              RefactorResponse.language = ''python'',
              RefactorResponse.success = True, RefactorResponse.error = None\<rparr>"
proof -
  have absent: "''chosen_provider'' \<notin> set (map property_name RefactorResponse_interface)"
    by (simp add: RefactorResponse_interface_def)
  have present: "''language'' \<in> set (map property_name RefactorResponse_interface)"
    by (simp add: RefactorResponse_interface_def)
  have "set (map property_name RefactorResponse_interface)
     \<noteq> {''refactored_code'', ''success'', ''error'', ''chosen_provider''}"
  proof
    assume "set (map property_name RefactorResponse_interface)
      = {''refactored_code'', ''success'', ''error'', ''chosen_provider''}"
    then have "''chosen_provider'' \<in> set (map property_name RefactorResponse_interface)"
      by (simp only: insert_iff simp_thms)
    with absent show False by (rule notE)
  qed
  moreover have "refactorCode server_refactored example_request
       = Inr \<lparr>RefactorResponse.refactored_code = ''print(1)  # refactored'',
              RefactorResponse.language = ''python'',
              RefactorResponse.success = True, RefactorResponse.error = None\<rparr>"
    by (simp add: refactorCode_def api_call_def server_refactored_def example_request_def)
  ultimately show ?thesis using absent present by (intro conjI)
qed

text \<open>
  Claim C6, amended. The value the caller of \<^verbatim>\<open>refactorCode\<close> receives is
  \<^verbatim>\<open>response.data\<close> as the server sent it, unvalidated, further properties included. Its
  declared type \<^verbatim>\<open>RefactorResponse\<close> has exactly the fields \<^verbatim>\<open>refactored_code: string\<close>,
  \<^verbatim>\<open>language: string\<close>, \<^verbatim>\<open>success: boolean\<close> and the optional \<^verbatim>\<open>error: string\<close>:
  it declares \<^verbatim>\<open>language\<close> and no \<^verbatim>\<open>chosen_provider\<close>. Of the response
  \<^verbatim>\<open>handleRefactor\<close> reads \<^verbatim>\<open>success\<close>, \<^verbatim>\<open>refactored_code\<close> and \<^verbatim>\<open>error\<close> only: two
  servers whose answers agree on these three lead to the same state and the same requests,
  whatever else the answers hold, a \<^verbatim>\<open>chosen_provider\<close> for one.
\<close>

theorem RefactorResponse_passed_through_unread:
  fixes server :: "RefactorRequest \<Rightarrow> 'y RefactorResponse_scheme axios_result"
    and server' :: "RefactorRequest \<Rightarrow> 'z RefactorResponse_scheme axios_result"
  shows "map (\<lambda>p. (property_name p, property_type p, optional p)) RefactorResponse_interface
     = [(''refactored_code'', TString, False), (''language'', TString, False),
        (''success'', TBoolean, False), (''error'', TString, True)]
   \<and> (\<forall>r. server data = Resolved r \<longrightarrow> refactorCode server data = Inr r)
   \<and> (\<forall>r r'.
         server \<lparr>code = inputCode state, RefactorRequest.language = AppState.language state\<rparr>
           = Resolved r
         \<and> server' \<lparr>code = inputCode state, RefactorRequest.language = AppState.language state\<rparr>
           = Resolved r'
         \<and> RefactorResponse.success r = RefactorResponse.success r'
         \<and> RefactorResponse.refactored_code r = RefactorResponse.refactored_code r'
         \<and> RefactorResponse.error r = RefactorResponse.error r' \<longrightarrow>
         handleRefactor server interleaved backendStatus authStatus state
           = handleRefactor server' interleaved backendStatus authStatus state)"
proof (intro conjI allI impI)
  show "map (\<lambda>p. (property_name p, property_type p, optional p)) RefactorResponse_interface
     = [(''refactored_code'', TString, False), (''language'', TString, False),
        (''success'', TBoolean, False), (''error'', TString, True)]"
    by (simp add: RefactorResponse_interface_def)
next
  fix r assume "server data = Resolved r"
  then show "refactorCode server data = Inr r" by (rule refactorCode_Resolved)
next
  fix r r'
  let ?request = "\<lparr>code = inputCode state, RefactorRequest.language = AppState.language state\<rparr>"
  assume a: "server ?request = Resolved r \<and> server' ?request = Resolved r'
         \<and> RefactorResponse.success r = RefactorResponse.success r'
         \<and> RefactorResponse.refactored_code r = RefactorResponse.refactored_code r'
         \<and> RefactorResponse.error r = RefactorResponse.error r'"
  then have r: "refactorCode server ?request = Inr r"
    and r': "refactorCode server' ?request = Inr r'"
    by (simp_all add: refactorCode_Resolved)
  from a r r'
  show "handleRefactor server interleaved backendStatus authStatus state
           = handleRefactor server' interleaved backendStatus authStatus state"
    by (simp add: handleRefactor_def Let_def)
qed

theorem RefactorResponse_passed_through_unread_witness:
  "refactorCode server_naming_provider example_request
     = Inr \<lparr>RefactorResponse.refactored_code = ''print(1)  # refactored'',
            RefactorResponse.language = ''python'',
            RefactorResponse.success = True, RefactorResponse.error = None,
            ResponseWithProvider.chosen_provider = ''anthropic''\<rparr>
   \<and> handleRefactor server_naming_provider id ''connected'' ''authenticated'' example_state
       = handleRefactor server_refactored id ''connected'' ''authenticated'' example_state
   \<and> outputCode (fst (handleRefactor server_naming_provider id ''connected'' ''authenticated''
        example_state)) = ''print(1)  # refactored''"
proof -
  let ?request = "\<lparr>code = inputCode example_state,
                    RefactorRequest.language = AppState.language example_state\<rparr>"
  let ?r = "\<lparr>RefactorResponse.refactored_code = ''print(1)  # refactored'',
            RefactorResponse.language = ''python'',
            RefactorResponse.success = True, RefactorResponse.error = None,
            ResponseWithProvider.chosen_provider = ''anthropic''\<rparr>"
  let ?r' = "\<lparr>RefactorResponse.refactored_code = ''print(1)  # refactored'',
            RefactorResponse.language = ''python'',
            RefactorResponse.success = True, RefactorResponse.error = None\<rparr>"
  note T = RefactorResponse_passed_through_unread
    [of server_naming_provider example_request example_state server_refactored id
      "''connected''" "''authenticated''"]
  have s0: "server_naming_provider example_request = Resolved ?r"
    by (simp add: server_naming_provider_def example_request_def)
  have s1: "server_naming_provider ?request = Resolved ?r"
    by (simp add: server_naming_provider_def example_state_def)
  have s2: "server_refactored ?request = Resolved ?r'"
    by (simp add: server_refactored_def example_state_def)
  from T s0 have 1: "refactorCode server_naming_provider example_request = Inr ?r"
    by simp
  from T s1 s2
  have 2: "handleRefactor server_naming_provider id ''connected'' ''authenticated'' example_state
       = handleRefactor server_refactored id ''connected'' ''authenticated'' example_state"
    by simp
  have "outputCode (fst (handleRefactor server_refactored id ''connected'' ''authenticated''
        example_state)) = ''print(1)  # refactored''"
    by (simp add: handleRefactor_def Let_def refactorCode_def api_call_def
        server_refactored_def example_state_def trim_def is_js_space_def)
  with 2 have 3: "outputCode (fst (handleRefactor server_naming_provider id ''connected''
        ''authenticated'' example_state)) = ''print(1)  # refactored''"
    by simp
  from 1 2 3 show ?thesis by (intro conjI)
qed

section \<open>Properties of the orchestration core\<close>

lemma set_successes: "(c, p, l) \<in> set (successes outcomes) \<longleftrightarrow> Success c p l \<in> set outcomes"
  by (induction outcomes rule: successes.induct) auto

lemma set_failures: "(p, k, m) \<in> set (failures outcomes) \<longleftrightarrow> Failure p k m \<in> set outcomes"
  by (induction outcomes rule: failures.induct) auto

lemma successes_cong_set: "set xs = set ys \<Longrightarrow> set (successes xs) = set (successes ys)"
  by (auto simp: set_successes)

lemma failures_cong_set: "set xs = set ys \<Longrightarrow> set (failures xs) = set (failures ys)"
  by (auto simp: set_failures)

lemma provider_in_successes:
  "x \<in> set (successes outcomes) \<Longrightarrow> fst (snd x) \<in> set (map provider_id outcomes)"
  by (induction outcomes rule: successes.induct) auto

lemma provider_in_failures:
  "x \<in> set (failures outcomes) \<Longrightarrow> fst x \<in> set (map provider_id outcomes)"
  by (induction outcomes rule: failures.induct) auto

lemma distinct_successes:
  "distinct (map provider_id outcomes) \<Longrightarrow> distinct (map (\<lambda>x. fst (snd x)) (successes outcomes))"
  by (induction outcomes rule: successes.induct) (auto dest: provider_in_successes)

lemma distinct_failures:
  "distinct (map provider_id outcomes) \<Longrightarrow> distinct (map fst (failures outcomes))"
  by (induction outcomes rule: failures.induct) (auto dest: provider_in_failures)

lemma fastest_None_iff: "fastest xs = None \<longleftrightarrow> xs = []"
  by (cases xs) (auto split: option.splits)

lemma fastest_in: "fastest xs = Some m \<Longrightarrow> m \<in> set xs"
  by (induction xs arbitrary: m) (auto split: option.splits if_splits)

lemma precedes_total: "precedes x y \<or> precedes y x"
  by (cases x; cases y) auto

lemma precedes_trans: "precedes x y \<Longrightarrow> precedes y z \<Longrightarrow> precedes x z"
  by (cases x; cases y; cases z) auto

lemma precedes_refl: "precedes x x"
  by (cases x) auto

lemma precedes_antisym: "precedes x y \<Longrightarrow> precedes y x \<Longrightarrow> fst (snd x) = fst (snd y)"
  by (cases x; cases y) auto

lemma fastest_least: "fastest xs = Some m \<Longrightarrow> t \<in> set xs \<Longrightarrow> precedes m t"
proof (induction xs arbitrary: m t)
  case Nil
  then show ?case by simp
next
  case (Cons x xs)
  show ?case
  proof (cases "fastest xs")
    case None
    then have "xs = []" by (simp add: fastest_None_iff)
    with Cons.prems show ?thesis by (simp add: precedes_refl)
  next
    case (Some y)
    have least_y: "precedes y u" if "u \<in> set xs" for u
      using Cons.IH [OF Some that] .
    from Cons.prems(2) consider "t = x" | "t \<in> set xs" by auto
    then show ?thesis
    proof cases
      case 1
      show ?thesis
      proof (cases "precedes x y")
        case True
        with Some Cons.prems(1) have "m = x" by simp
        with 1 show ?thesis by (simp add: precedes_refl)
      next
        case False
        with Some Cons.prems(1) have "m = y" by simp
        moreover from False precedes_total [of x y] have "precedes y x" by blast
        ultimately show ?thesis using 1 by simp
      qed
    next
      case 2
      show ?thesis
      proof (cases "precedes x y")
        case True
        with Some Cons.prems(1) have "m = x" by simp
        moreover from True least_y [OF 2] have "precedes x t" by (rule precedes_trans)
        ultimately show ?thesis by simp
      next
        case False
        with Some Cons.prems(1) have "m = y" by simp
        with least_y [OF 2] show ?thesis by simp
      qed
    qed
  qed
qed

lemma find_preferred_None:
  "\<forall>c p l. Success c p l \<in> set outcomes \<longrightarrow> Some p \<noteq> preferred \<Longrightarrow>
   find (\<lambda>(c, p, l). Some p = preferred) (successes outcomes) = None"
  by (auto simp: find_None_iff set_successes)

lemma find_cong_set:
  assumes "set xs = set ys"
    and uniq: "\<And>a b. a \<in> set xs \<Longrightarrow> b \<in> set xs \<Longrightarrow> P a \<Longrightarrow> P b \<Longrightarrow> a = b"
  shows "find P xs = find P ys"
proof (cases "find P xs")
  case None
  then have "\<not> (\<exists>x. x \<in> set xs \<and> P x)" by (simp add: find_None_iff)
  with assms(1) have "find P ys = None" by (simp add: find_None_iff)
  with None show ?thesis by simp
next
  case (Some x)
  then have x: "x \<in> set xs" "P x"
    by (auto simp: find_Some_iff)
  with assms(1) have "find P ys \<noteq> None" by (auto simp: find_None_iff)
  then obtain y where y: "find P ys = Some y" by auto
  then have "y \<in> set ys" "P y" by (auto simp: find_Some_iff)
  with assms(1) x have "y = x" by (auto intro: uniq)
  with Some y show ?thesis by simp
qed

lemma same_key_same_element:
  "distinct (map f xs) \<Longrightarrow> a \<in> set xs \<Longrightarrow> b \<in> set xs \<Longrightarrow> f a = f b \<Longrightarrow> a = b"
  by (auto simp: distinct_map dest: inj_onD)

lemma fastest_cong_set:
  assumes eq: "set xs = set ys"
    and dist: "distinct (map (\<lambda>x. fst (snd x)) xs)"
  shows "fastest xs = fastest ys"
proof (cases "fastest xs")
  case None
  then have "xs = []" by (simp add: fastest_None_iff)
  with eq have "ys = []" by simp
  with None show ?thesis by simp
next
  case (Some m)
  then have mx: "m \<in> set xs" by (rule fastest_in)
  with eq have "ys \<noteq> []" by auto
  then obtain m' where m': "fastest ys = Some m'"
    by (cases "fastest ys") (simp_all add: fastest_None_iff)
  then have my: "m' \<in> set ys" by (rule fastest_in)
  from eq my have m'x: "m' \<in> set xs" by simp
  from eq mx have m_y: "m \<in> set ys" by simp
  from Some m'x have 1: "precedes m m'" by (rule fastest_least)
  from m' m_y have 2: "precedes m' m" by (rule fastest_least)
  from 1 2 have "fst (snd m) = fst (snd m')" by (rule precedes_antisym)
  with dist mx m'x have "m = m'" by (rule same_key_same_element)
  with Some m' show ?thesis by simp
qed

lemma sort_key_cong_set:
  fixes f :: "'a \<Rightarrow> 'k::linorder"
  assumes "set xs = set ys" and "distinct (map f xs)" and "distinct (map f ys)"
  shows "sort_key f xs = sort_key f ys"
proof -
  have inj: "inj_on f (set xs)" using assms(2) by (simp add: distinct_map)
  have "map f (sort_key f xs) = map f (sort_key f ys)"
  proof (rule sorted_distinct_set_unique)
    show "sorted (map f (sort_key f xs))" by simp
    show "sorted (map f (sort_key f ys))" by simp
    from assms(2) show "distinct (map f (sort_key f xs))"
      by (simp add: distinct_map)
    from assms(3) show "distinct (map f (sort_key f ys))"
      by (simp add: distinct_map)
    from assms(1) show "set (map f (sort_key f xs)) = set (map f (sort_key f ys))"
      by simp
  qed
  moreover from inj assms(1) have "inj_on f (set (sort_key f xs) \<union> set (sort_key f ys))"
    by simp
  ultimately show ?thesis by (simp add: inj_on_map_eq_map)
qed

lemma attempts_length: "length (attempts adapter i r) \<le> Suc r"
  by (induction r arbitrary: i) (auto split: ProviderOutcome.splits)

lemma attempts_nonempty: "attempts adapter i r \<noteq> []"
  by (cases r) (auto split: ProviderOutcome.splits)

section \<open>Claims about the orchestration core\<close>

text \<open>
  Claim C4. \<^verbatim>\<open>select\<close> is a function of the set of outcomes alone: two enumerations of
  the same set, each with one outcome per provider as the data model requires, give the
  same \<^verbatim>\<open>RefactorResult\<close>, whichever provider is preferred.
\<close>

theorem select_depends_on_set_only:
  assumes dx: "distinct (map provider_id xs)" and dy: "distinct (map provider_id ys)"
    and eq: "set xs = set ys"
  shows "select preferred xs = select preferred ys"
proof -
  let ?P = "\<lambda>(c :: string, p :: string, l :: nat). Some p = preferred"
  from eq have se: "set (successes xs) = set (successes ys)" by (rule successes_cong_set)
  from eq have fe: "set (failures xs) = set (failures ys)" by (rule failures_cong_set)
  from dx have sdx: "distinct (map (\<lambda>x. fst (snd x)) (successes xs))" by (rule distinct_successes)
  have f: "find ?P (successes xs) = find ?P (successes ys)"
  proof (rule find_cong_set [OF se])
    fix a b
    assume a: "a \<in> set (successes xs)" and b: "b \<in> set (successes xs)"
      and pa: "?P a" and pb: "?P b"
    obtain ca pa' la where adef: "a = (ca, pa', la)" by (cases a) auto
    obtain cb pb' lb where bdef: "b = (cb, pb', lb)" by (cases b) auto
    from pa adef have "Some pa' = preferred" by simp
    moreover from pb bdef have "Some pb' = preferred" by simp
    ultimately have "pa' = pb'" by (metis option.inject)
    with adef bdef have "fst (snd a) = fst (snd b)" by simp
    with sdx a b show "a = b" by (rule same_key_same_element)
  qed
  from se sdx have s: "fastest (successes xs) = fastest (successes ys)"
    by (rule fastest_cong_set)
  have "sort_key fst (failures xs) = sort_key fst (failures ys)"
    using fe dx dy by (intro sort_key_cong_set distinct_failures)
  then have d: "diagnostic xs = diagnostic ys" by (simp add: diagnostic_def)
  show ?thesis unfolding select_def f s d by (rule refl)
qed

theorem select_depends_on_set_only_witness:
  "distinct (map provider_id outcomes_A_then_B)
   \<and> distinct (map provider_id outcomes_B_then_A)
   \<and> set outcomes_A_then_B = set outcomes_B_then_A
   \<and> select None outcomes_A_then_B = select None outcomes_B_then_A
   \<and> select None outcomes_A_then_B
       = \<lparr>refactored_code = ''print(1)  # refactored'', success = True, error = None,
          chosen_provider = Some ''A''\<rparr>"
proof -
  have dx: "distinct (map provider_id outcomes_A_then_B)"
    by (simp add: outcomes_A_then_B_def)
  have dy: "distinct (map provider_id outcomes_B_then_A)"
    by (simp add: outcomes_B_then_A_def)
  have eq: "set outcomes_A_then_B = set outcomes_B_then_A"
    by (simp add: outcomes_A_then_B_def outcomes_B_then_A_def insert_commute)
  have same: "select None outcomes_A_then_B = select None outcomes_B_then_A"
    using dx dy eq by (rule select_depends_on_set_only)
  have val: "select None outcomes_B_then_A
       = \<lparr>refactored_code = ''print(1)  # refactored'', success = True, error = None,
          chosen_provider = Some ''A''\<rparr>"
    by (simp add: select_def outcomes_B_then_A_def)
  from same val have "select None outcomes_A_then_B
       = \<lparr>refactored_code = ''print(1)  # refactored'', success = True, error = None,
          chosen_provider = Some ''A''\<rparr>"
    by (rule trans)
  with dx dy eq same show ?thesis by (intro conjI)
qed

text \<open>
  Claim C5. When some outcome is a success and the preferred provider is not among the
  successes, \<^verbatim>\<open>select\<close> returns \<^verbatim>\<open>success:true\<close> with the code of a success whose
  latency is the lowest among successes and whose provider id is lexicographically smallest
  among those of that latency.
\<close>

theorem select_fastest_success:
  assumes some: "\<exists>c p l. Success c p l \<in> set outcomes"
    and no_preferred: "\<forall>c p l. Success c p l \<in> set outcomes \<longrightarrow> Some p \<noteq> preferred"
  shows "\<exists>c p l. Success c p l \<in> set outcomes
     \<and> (\<forall>c' p' l'. Success c' p' l' \<in> set outcomes \<longrightarrow> l < l' \<or> (l = l' \<and> p \<le> p'))
     \<and> select preferred outcomes
         = \<lparr>refactored_code = c, success = True, error = None, chosen_provider = Some p\<rparr>"
proof -
  from some have "successes outcomes \<noteq> []"
    by (auto simp: set_successes [symmetric])
  then obtain m where m: "fastest (successes outcomes) = Some m"
    by (cases "fastest (successes outcomes)") (simp_all add: fastest_None_iff)
  obtain c p l where mdef: "m = (c, p, l)" by (cases m) auto
  from m have "m \<in> set (successes outcomes)" by (rule fastest_in)
  with mdef have min: "Success c p l \<in> set outcomes" by (simp add: set_successes)
  have least: "l < l' \<or> (l = l' \<and> p \<le> p')" if "Success c' p' l' \<in> set outcomes" for c' p' l'
  proof -
    from that have "(c', p', l') \<in> set (successes outcomes)" by (simp add: set_successes)
    with m have "precedes m (c', p', l')" by (rule fastest_least)
    with mdef show ?thesis by simp
  qed
  from no_preferred have "find (\<lambda>(c, p, l). Some p = preferred) (successes outcomes) = None"
    by (rule find_preferred_None)
  with m mdef
  have "select preferred outcomes
         = \<lparr>refactored_code = c, success = True, error = None, chosen_provider = Some p\<rparr>"
    by (simp add: select_def)
  with min least show ?thesis by blast
qed

theorem select_fastest_success_witness:
  "Success ''from A'' ''A'' 200 \<in> set outcomes_tied
   \<and> (\<exists>c p l. Success c p l \<in> set outcomes_tied
         \<and> select (Some ''D'') outcomes_tied
             = \<lparr>refactored_code = c, success = True, error = None, chosen_provider = Some p\<rparr>)
   \<and> select (Some ''D'') outcomes_tied
       = \<lparr>refactored_code = ''from A'', success = True, error = None,
          chosen_provider = Some ''A''\<rparr>"
proof -
  have a: "Success ''from A'' ''A'' 200 \<in> set outcomes_tied"
    by (simp add: outcomes_tied_def)
  then have some: "\<exists>c p l. Success c p l \<in> set outcomes_tied"
    by (intro exI)
  have none: "\<forall>c p l. Success c p l \<in> set outcomes_tied \<longrightarrow> Some p \<noteq> Some ''D''"
    by (simp add: outcomes_tied_def)
  from select_fastest_success [OF some none]
  have ex: "\<exists>c p l. Success c p l \<in> set outcomes_tied
         \<and> select (Some ''D'') outcomes_tied
             = \<lparr>refactored_code = c, success = True, error = None, chosen_provider = Some p\<rparr>"
    by (elim exE conjE) (intro exI conjI)
  have val: "select (Some ''D'') outcomes_tied
       = \<lparr>refactored_code = ''from A'', success = True, error = None,
          chosen_provider = Some ''A''\<rparr>"
    by (simp add: select_def outcomes_tied_def)
  from a ex val show ?thesis by (intro conjI)
qed

text \<open>
  Claim C7. A provider call is attempted at most twice. A first attempt that fails with
  \<^verbatim>\<open>Timeout\<close> or \<^verbatim>\<open>RateLimited\<close> is retried exactly once and the retry's outcome is
  the one recorded; a first attempt that fails with \<^verbatim>\<open>AuthRejected\<close> or
  \<^verbatim>\<open>MalformedResponse\<close>, or that succeeds, is not retried.
\<close>

theorem call_with_retry_once:
  "length (call_with_retry adapter) \<le> 2
   \<and> call_with_retry adapter \<noteq> []
   \<and> (\<forall>p k m. adapter 0 = Failure p k m \<and> (k = Timeout \<or> k = RateLimited) \<longrightarrow>
          call_with_retry adapter = [adapter 0, adapter 1] \<and> recorded adapter = adapter 1)
   \<and> (\<forall>p k m. adapter 0 = Failure p k m \<and> (k = AuthRejected \<or> k = MalformedResponse) \<longrightarrow>
          call_with_retry adapter = [adapter 0] \<and> recorded adapter = adapter 0)
   \<and> (\<forall>c p l. adapter 0 = Success c p l \<longrightarrow>
          call_with_retry adapter = [adapter 0] \<and> recorded adapter = adapter 0)"
proof (intro conjI allI impI)
  have "length (attempts adapter 0 1) \<le> Suc 1" by (rule attempts_length)
  then show "length (call_with_retry adapter) \<le> 2"
    by (simp add: call_with_retry_def max_retries_def)
next
  show "call_with_retry adapter \<noteq> []"
    by (simp add: call_with_retry_def attempts_nonempty)
next
  fix p k m
  assume a: "adapter 0 = Failure p k m \<and> (k = Timeout \<or> k = RateLimited)"
  then have t: "transient k" by (auto simp: transient_def)
  from a t show "call_with_retry adapter = [adapter 0, adapter 1]"
    by (simp add: call_with_retry_def max_retries_def)
  then show "recorded adapter = adapter 1" by (simp add: recorded_def)
next
  fix p k m
  assume a: "adapter 0 = Failure p k m \<and> (k = AuthRejected \<or> k = MalformedResponse)"
  then have t: "\<not> transient k" by (auto simp: transient_def)
  from a t show "call_with_retry adapter = [adapter 0]"
    by (simp add: call_with_retry_def max_retries_def)
  then show "recorded adapter = adapter 0" by (simp add: recorded_def)
next
  fix c p l
  assume a: "adapter 0 = Success c p l"
  then show "call_with_retry adapter = [adapter 0]"
    by (simp add: call_with_retry_def max_retries_def)
  then show "recorded adapter = adapter 0" by (simp add: recorded_def)
qed

theorem call_with_retry_once_witness:
  "flaky 0 = Failure ''A'' Timeout ''timed out''
   \<and> call_with_retry flaky
       = [Failure ''A'' Timeout ''timed out'', Success ''print(1)  # refactored'' ''A'' 200]
   \<and> rejecting 0 = Failure ''B'' AuthRejected ''invalid API key''
   \<and> call_with_retry rejecting = [Failure ''B'' AuthRejected ''invalid API key'']"
proof -
  have f0: "flaky 0 = Failure ''A'' Timeout ''timed out''"
    and f1: "flaky 1 = Success ''print(1)  # refactored'' ''A'' 200"
    by (simp_all add: flaky_def)
  have r0: "rejecting 0 = Failure ''B'' AuthRejected ''invalid API key''"
    by (simp add: rejecting_def)
  have "call_with_retry flaky = [flaky 0, flaky 1]"
    using call_with_retry_once [of flaky] f0 by simp
  with f0 f1 have 1: "call_with_retry flaky
       = [Failure ''A'' Timeout ''timed out'', Success ''print(1)  # refactored'' ''A'' 200]"
    by simp
  have "call_with_retry rejecting = [rejecting 0]"
    using call_with_retry_once [of rejecting] r0 by simp
  with r0 have 2: "call_with_retry rejecting = [Failure ''B'' AuthRejected ''invalid API key'']"
    by simp
  from f0 1 r0 2 show ?thesis by (intro conjI)
qed

end
